theory Spec2Isabelle
  imports Complex_Main
begin

section \<open>JavaScript values\<close>

text \<open>
  A JavaScript number is modelled as a \<^typ>\<open>real\<close>: the arithmetic of the analysis code is
  read as exact arithmetic, so rounding of IEEE doubles is outside the model. The values a
  double has beyond the finite numbers (\<open>NaN\<close>, \<open>Infinity\<close>) arise in this code from a
  division by zero only; every division whose divisor can be zero is written out below.
  A string is a \<^typ>\<open>string\<close>; \<open>null\<close> and \<open>undefined\<close> are \<^const>\<open>None\<close>.
\<close>

text \<open>\<open>String.prototype.includes\<close>: the argument occurs as a contiguous substring.\<close>

fun str_includes :: "string \<Rightarrow> string \<Rightarrow> bool" where
  "str_includes [] sub = (sub = [])"
| "str_includes (c # cs) sub = (take (length sub) (c # cs) = sub \<or> str_includes cs sub)"

text \<open>\<open>Math.round\<close>: the nearest integer, a half rounded towards plus infinity.\<close>

definition Math_round :: "real \<Rightarrow> int" where
  "Math_round x = \<lfloor>x + 1 / 2\<rfloor>"

text \<open>
  A quotient \<open>a / b\<close> that is only stored, never compared: \<^const>\<open>None\<close> stands for the
  non-finite result (\<open>NaN\<close> or an infinity) of a division by zero.
\<close>

definition js_div :: "real \<Rightarrow> real \<Rightarrow> real option" where
  "js_div a b = (if b = 0 then None else Some (a / b))"

text \<open>JavaScript truthiness of a number that may be \<open>null\<close>: present and not zero.\<close>

definition truthy :: "real option \<Rightarrow> bool" where
  "truthy v = (case v of None \<Rightarrow> False | Some x \<Rightarrow> x \<noteq> 0)"

section \<open>Leverage\<close>

record leverage =
  recommended :: int
  riskLevel :: string
  leverage_reason :: string

text \<open>
  \<open>calculateLeverage(confidence, volatility)\<close> reads only \<open>volatility.level\<close>, which is
  passed here directly.
\<close>

definition baseLeverage :: "string \<Rightarrow> real" where
  "baseLeverage confidence =
     (if confidence = ''very high'' then 5
      else if confidence = ''high'' then 3
      else if confidence = ''moderate'' then 2
      else 1)"

definition volatilityMultiplier :: "string \<Rightarrow> real" where
  "volatilityMultiplier level =
     (if level = ''low'' then 3 / 2
      else if level = ''high'' then 1 / 2
      else 1)"

definition calculateLeverage :: "string \<Rightarrow> string \<Rightarrow> leverage" where
  "calculateLeverage confidence level =
     (let finalLeverage = Math_round (baseLeverage confidence * volatilityMultiplier level);
          risk = (if finalLeverage \<ge> 4 then ''high''
                  else if finalLeverage \<le> 2 then ''low''
                  else ''moderate'')
      in \<lparr> recommended = finalLeverage,
           riskLevel = risk,
           leverage_reason = ''Leverage based on '' @ confidence @ '' confidence and ''
                               @ level @ '' volatility'' \<rparr>)"

section \<open>Inputs of the aggregator\<close>

text \<open>
  The three analysis results are nested JavaScript objects. Each is a record here, a
  field named by its path in the object (\<open>technicalAnalysis.trendStrength.direction\<close> is
  \<open>trendStrength_direction\<close>); only the fields read by the aggregator are kept.
  \<open>nearestSupport\<close> and \<open>nearestResistance\<close> are a number or \<open>null\<close>.
  \<open>buySellRatio_ratio\<close> is \<^const>\<open>None\<close> when the ratio is \<open>undefined\<close> or \<open>null\<close>, on
  which \<open>toFixed\<close> cannot be called.
\<close>

record technical =
  trendStrength_direction :: string
  trendStrength_strength :: string
  movingAverages_maTrend :: string
  movingAverages_aboveSma20 :: bool
  movingAverages_aboveSma50 :: bool
  movingAverages_aboveSma200 :: bool
  momentum_overallMomentum :: string
  oscillators_consensus :: string
  patterns_patternSignal :: string
  patterns_doubleTop_detected :: bool
  patterns_doubleBottom_detected :: bool
  patterns_headAndShoulders_detected :: bool
  patterns_inverseHeadAndShoulders_detected :: bool
  marketStructure_structure :: string
  supportResistance_currentPrice :: real
  supportResistance_nearestSupport :: "real option"
  supportResistance_nearestResistance :: "real option"
  supportResistance_levels_support :: "real list"
  supportResistance_levels_resistance :: "real list"
  volatility_level :: string

record sentiment =
  overallSentiment_classification :: string
  social_sentiment :: string
  social_volume :: string
  news_sentiment :: string
  fearGreedIndex_classification :: string

record volume =
  volumeTrends_classification :: string
  buySellRatio_pressureClassification :: string
  buySellRatio_ratio :: "real option"
  volumeAtPrice_volumeWallClassification :: string

section \<open>Direction and confidence\<close>

definition b2i :: "bool \<Rightarrow> int" where
  "b2i b = (if b then 1 else 0)"

text \<open>
  The six counters of \<open>determineTradeDirection\<close>, each incremented once per matching
  sub-classification, and their two totals.
\<close>

definition technicalBullishCount :: "technical \<Rightarrow> int" where
  "technicalBullishCount ta =
     b2i (trendStrength_direction ta = ''bullish'')
     + b2i (str_includes (movingAverages_maTrend ta) ''bullish'')
     + b2i (str_includes (momentum_overallMomentum ta) ''bullish'')
     + b2i (oscillators_consensus ta = ''bullish'')
     + b2i (patterns_patternSignal ta = ''bullish'')
     + b2i (marketStructure_structure ta = ''uptrend'')"

definition technicalBearishCount :: "technical \<Rightarrow> int" where
  "technicalBearishCount ta =
     b2i (trendStrength_direction ta = ''bearish'')
     + b2i (str_includes (movingAverages_maTrend ta) ''bearish'')
     + b2i (str_includes (momentum_overallMomentum ta) ''bearish'')
     + b2i (oscillators_consensus ta = ''bearish'')
     + b2i (patterns_patternSignal ta = ''bearish'')
     + b2i (marketStructure_structure ta = ''downtrend'')"

definition sentimentBullishCount :: "sentiment \<Rightarrow> int" where
  "sentimentBullishCount sa =
     b2i (str_includes (overallSentiment_classification sa) ''bullish'')
     + b2i (str_includes (social_sentiment sa) ''bullish'')
     + b2i (str_includes (news_sentiment sa) ''bullish'')
     + b2i (fearGreedIndex_classification sa = ''extreme greed'')"

definition sentimentBearishCount :: "sentiment \<Rightarrow> int" where
  "sentimentBearishCount sa =
     b2i (str_includes (overallSentiment_classification sa) ''bearish'')
     + b2i (str_includes (social_sentiment sa) ''bearish'')
     + b2i (str_includes (news_sentiment sa) ''bearish'')
     + b2i (fearGreedIndex_classification sa = ''extreme fear'')"

definition volumeBullishCount :: "volume \<Rightarrow> int" where
  "volumeBullishCount va =
     b2i (volumeTrends_classification va = ''increasing'')
     + b2i (buySellRatio_pressureClassification va = ''buying'')
     + b2i (volumeAtPrice_volumeWallClassification va = ''strong support'')"

definition volumeBearishCount :: "volume \<Rightarrow> int" where
  "volumeBearishCount va =
     b2i (volumeTrends_classification va = ''decreasing'')
     + b2i (buySellRatio_pressureClassification va = ''selling'')
     + b2i (volumeAtPrice_volumeWallClassification va = ''strong resistance'')"

definition totalBullish :: "technical \<Rightarrow> sentiment \<Rightarrow> volume \<Rightarrow> int" where
  "totalBullish ta sa va =
     technicalBullishCount ta + sentimentBullishCount sa + volumeBullishCount va"

definition totalBearish :: "technical \<Rightarrow> sentiment \<Rightarrow> volume \<Rightarrow> int" where
  "totalBearish ta sa va =
     technicalBearishCount ta + sentimentBearishCount sa + volumeBearishCount va"

definition determineTradeDirection :: "technical \<Rightarrow> sentiment \<Rightarrow> volume \<Rightarrow> string" where
  "determineTradeDirection ta sa va =
     (if totalBullish ta sa va > totalBearish ta sa va
         \<and> totalBullish ta sa va - totalBearish ta sa va \<ge> 3 then ''long''
      else if totalBearish ta sa va > totalBullish ta sa va
         \<and> totalBearish ta sa va - totalBullish ta sa va \<ge> 3 then ''short''
      else ''neutral'')"

text \<open>
  \<open>calculateConfidence\<close>: the score is built from six sub-classifications only, then
  mapped to a label. \<open>side\<close> is the word the direction asks for.
\<close>

definition side :: "string \<Rightarrow> string" where
  "side direction = (if direction = ''long'' then ''bullish'' else ''bearish'')"

definition confidenceScore :: "technical \<Rightarrow> sentiment \<Rightarrow> volume \<Rightarrow> string \<Rightarrow> int" where
  "confidenceScore ta sa va direction =
     (if trendStrength_strength ta = ''strong''
         \<and> trendStrength_direction ta = side direction then 2
      else if trendStrength_strength ta = ''moderate''
         \<and> trendStrength_direction ta = side direction then 1
      else 0)
     + (if str_includes (momentum_overallMomentum ta) ''strongly''
           \<and> str_includes (momentum_overallMomentum ta) (side direction) then 2
        else if momentum_overallMomentum ta = side direction then 1
        else 0)
     + (if str_includes (movingAverages_maTrend ta) ''strongly''
           \<and> str_includes (movingAverages_maTrend ta) (side direction) then 2
        else if movingAverages_maTrend ta = side direction then 1
        else 0)
     + (if str_includes (overallSentiment_classification sa) ''very''
           \<and> str_includes (overallSentiment_classification sa) (side direction) then 2
        else if overallSentiment_classification sa = side direction then 1
        else 0)
     + b2i (buySellRatio_pressureClassification va
              = (if direction = ''long'' then ''buying'' else ''selling''))
     + b2i (volumeAtPrice_volumeWallClassification va
              = (if direction = ''long'' then ''strong support'' else ''strong resistance''))"

definition calculateConfidence :: "technical \<Rightarrow> sentiment \<Rightarrow> volume \<Rightarrow> string \<Rightarrow> string" where
  "calculateConfidence ta sa va direction =
     (let confidenceScore = confidenceScore ta sa va direction
      in if confidenceScore \<ge> 7 then ''very high''
         else if confidenceScore \<ge> 5 then ''high''
         else if confidenceScore \<ge> 3 then ''moderate''
         else ''low'')"

section \<open>Entries, take-profit targets and stop loss\<close>

record entry =
  entry_price :: real
  entry_type :: string
  entry_allocation :: real
  entry_reason :: string

record takeProfit =
  tp_price :: real
  tp_allocation :: real
  tp_percentageGain :: "real option"
  tp_reason :: string

record stopLoss =
  sl_price :: "real option"
  sl_percentageLoss :: "real option"
  sl_reason :: string

text \<open>\<open>(a / b) * 100\<close>, non-finite (\<^const>\<open>None\<close>) when \<open>b\<close> is zero.\<close>

definition js_pct :: "real \<Rightarrow> real \<Rightarrow> real option" where
  "js_pct a b = map_option (\<lambda>q. q * 100) (js_div a b)"

definition marketEntry :: "real \<Rightarrow> entry" where
  "marketEntry currentPrice =
     \<lparr> entry_price = currentPrice, entry_type = ''market'', entry_allocation = 4 / 10,
       entry_reason = ''Immediate market entry'' \<rparr>"

definition limitEntry :: "real \<Rightarrow> string \<Rightarrow> entry" where
  "limitEntry p why =
     \<lparr> entry_price = p, entry_type = ''limit'', entry_allocation = 3 / 10,
       entry_reason = why \<rparr>"

definition determineEntryPoints :: "technical \<Rightarrow> string \<Rightarrow> entry list" where
  "determineEntryPoints ta direction =
     (let currentPrice = supportResistance_currentPrice ta in
      if direction = ''long'' then
        [marketEntry currentPrice]
        @ (if truthy (supportResistance_nearestSupport ta)
           then [limitEntry (the (supportResistance_nearestSupport ta))
                   ''Entry at nearest support level'']
           else [])
        @ (let supports = supportResistance_levels_support ta in
           if length supports \<ge> 2
           then [limitEntry (supports ! 1) ''Entry at secondary support level'']
           else [])
      else if direction = ''short'' then
        [marketEntry currentPrice]
        @ (if truthy (supportResistance_nearestResistance ta)
           then [limitEntry (the (supportResistance_nearestResistance ta))
                   ''Entry at nearest resistance level'']
           else [])
        @ (let resistances = supportResistance_levels_resistance ta in
           if length resistances \<ge> 2
           then [limitEntry (resistances ! 1) ''Entry at secondary resistance level'']
           else [])
      else [])"

definition target :: "real \<Rightarrow> real \<Rightarrow> real option \<Rightarrow> string \<Rightarrow> takeProfit" where
  "target p a g why =
     \<lparr> tp_price = p, tp_allocation = a, tp_percentageGain = g, tp_reason = why \<rparr>"

definition determineTakeProfitTargets :: "technical \<Rightarrow> string \<Rightarrow> takeProfit list" where
  "determineTakeProfitTargets ta direction =
     (let currentPrice = supportResistance_currentPrice ta in
      if direction = ''long'' then
        (let resistances = supportResistance_levels_resistance ta in
         if length resistances > 0 then
           [target (resistances ! 0) (3 / 10)
              (js_pct (resistances ! 0 - currentPrice) currentPrice)
              ''First take profit at nearest resistance'']
           @ (if length resistances > 1
              then [target (resistances ! 1) (3 / 10)
                      (js_pct (resistances ! 1 - currentPrice) currentPrice)
                      ''Second take profit at higher resistance'']
              else [])
           @ (if length resistances > 2
              then [target (resistances ! 2) (4 / 10)
                      (js_pct (resistances ! 2 - currentPrice) currentPrice)
                      ''Final take profit at major resistance'']
              else [target (currentPrice * (11 / 10)) (4 / 10) (Some 10)
                      ''Final take profit at projected target''])
         else
           [target (currentPrice * (103 / 100)) (3 / 10) (Some 3)
              ''First take profit at 3% gain'',
            target (currentPrice * (105 / 100)) (3 / 10) (Some 5)
              ''Second take profit at 5% gain'',
            target (currentPrice * (11 / 10)) (4 / 10) (Some 10)
              ''Final take profit at 10% gain''])
      else if direction = ''short'' then
        (let supports = supportResistance_levels_support ta in
         if length supports > 0 then
           [target (supports ! 0) (3 / 10)
              (js_pct (currentPrice - supports ! 0) currentPrice)
              ''First take profit at nearest support'']
           @ (if length supports > 1
              then [target (supports ! 1) (3 / 10)
                      (js_pct (currentPrice - supports ! 1) currentPrice)
                      ''Second take profit at lower support'']
              else [])
           @ (if length supports > 2
              then [target (supports ! 2) (4 / 10)
                      (js_pct (currentPrice - supports ! 2) currentPrice)
                      ''Final take profit at major support'']
              else [target (currentPrice * (9 / 10)) (4 / 10) (Some 10)
                      ''Final take profit at projected target''])
         else
           [target (currentPrice * (97 / 100)) (3 / 10) (Some 3)
              ''First take profit at 3% gain'',
            target (currentPrice * (95 / 100)) (3 / 10) (Some 5)
              ''Second take profit at 5% gain'',
            target (currentPrice * (9 / 10)) (4 / 10) (Some 10)
              ''Final take profit at 10% gain''])
      else [])"

text \<open>
  \<open>Math.min(...xs)\<close> and \<open>Math.max(...xs)\<close>: of no arguments they are plus and minus
  infinity, \<^const>\<open>None\<close> here.
\<close>

definition Math_min :: "real list \<Rightarrow> real option" where
  "Math_min xs = (case xs of [] \<Rightarrow> None | y # ys \<Rightarrow> Some (fold min ys y))"

definition Math_max :: "real list \<Rightarrow> real option" where
  "Math_max xs = (case xs of [] \<Rightarrow> None | y # ys \<Rightarrow> Some (fold max ys y))"

definition stop :: "real option \<Rightarrow> real option \<Rightarrow> string \<Rightarrow> stopLoss" where
  "stop p l why = \<lparr> sl_price = p, sl_percentageLoss = l, sl_reason = why \<rparr>"

text \<open>
  \<open>determineStopLoss\<close> falls off its end, returning \<open>undefined\<close>, for a direction that
  is neither long nor short.
\<close>

definition determineStopLoss :: "technical \<Rightarrow> string \<Rightarrow> entry list \<Rightarrow> stopLoss option" where
  "determineStopLoss ta direction entries =
     (let currentPrice = supportResistance_currentPrice ta in
      if direction = ''long'' then
        (if truthy (supportResistance_nearestSupport ta) then
           (let stopPrice = the (supportResistance_nearestSupport ta) * (98 / 100)
            in Some (stop (Some stopPrice) (js_pct (currentPrice - stopPrice) currentPrice)
                       ''Stop loss placed below nearest support level''))
         else
           (case Math_min (map entry_price entries) of
              None \<Rightarrow> Some (stop None None ''Stop loss placed 5% below lowest entry point'')
            | Some lowestEntry \<Rightarrow>
                (let stopPrice = lowestEntry * (95 / 100)
                 in Some (stop (Some stopPrice)
                            (js_pct (currentPrice - stopPrice) currentPrice)
                            ''Stop loss placed 5% below lowest entry point''))))
      else if direction = ''short'' then
        (if truthy (supportResistance_nearestResistance ta) then
           (let stopPrice = the (supportResistance_nearestResistance ta) * (102 / 100)
            in Some (stop (Some stopPrice) (js_pct (stopPrice - currentPrice) currentPrice)
                       ''Stop loss placed above nearest resistance level''))
         else
           (case Math_max (map entry_price entries) of
              None \<Rightarrow> Some (stop None None ''Stop loss placed 5% above highest entry point'')
            | Some highestEntry \<Rightarrow>
                (let stopPrice = highestEntry * (105 / 100)
                 in Some (stop (Some stopPrice)
                            (js_pct (stopPrice - currentPrice) currentPrice)
                            ''Stop loss placed 5% above highest entry point''))))
      else None)"

section \<open>Reasoning\<close>

text \<open>
  An exception is a value. The aggregator can raise a \<open>TypeError\<close>, on reading a property
  of \<open>undefined\<close>; the indicator library a \<open>RangeError\<close>, on building an array of
  negative length. The message is the engine's text, here without the quotation marks it
  puts around a property name.
\<close>

datatype js_error = TypeError string | RangeError string

fun message :: "js_error \<Rightarrow> string" where
  "message (TypeError m) = m"
| "message (RangeError m) = m"

definition on :: "bool \<Rightarrow> string \<Rightarrow> string list" where
  "on b line = (if b then [line] else [])"

text \<open>
  \<open>generateReasoning\<close> pushes one sentence per agreeing signal. \<open>toFixed\<close> stands for
  \<open>Number.prototype.toFixed(2)\<close>, the decimal rendering of the ratio; the call raises a
  \<open>TypeError\<close> when the ratio is not there.
\<close>

definition technicalReasons :: "technical \<Rightarrow> string \<Rightarrow> string list" where
  "technicalReasons ta direction =
     (if direction = ''long'' then
        on (trendStrength_direction ta = ''bullish'')
           (''Market is in a '' @ trendStrength_strength ta @ '' bullish trend'')
        @ on (str_includes (movingAverages_maTrend ta) ''bullish'')
           (''Price is trading above key moving averages (''
            @ (if movingAverages_aboveSma20 ta then ''above SMA20'' else []) @ '' ''
            @ (if movingAverages_aboveSma50 ta then ''above SMA50'' else []) @ '' ''
            @ (if movingAverages_aboveSma200 ta then ''above SMA200'' else []) @ '')'')
        @ on (str_includes (momentum_overallMomentum ta) ''bullish'')
           (''Momentum indicators are showing '' @ momentum_overallMomentum ta @ '' signals'')
        @ on (oscillators_consensus ta = ''bullish'') ''Oscillators are in bullish territory''
        @ on (patterns_doubleBottom_detected ta)
           ''Double bottom pattern detected, indicating potential reversal''
        @ on (patterns_inverseHeadAndShoulders_detected ta)
           ''Inverse head and shoulders pattern detected, indicating potential reversal''
        @ on (marketStructure_structure ta = ''uptrend'')
           ''Market structure shows higher highs and higher lows, confirming uptrend''
      else if direction = ''short'' then
        on (trendStrength_direction ta = ''bearish'')
           (''Market is in a '' @ trendStrength_strength ta @ '' bearish trend'')
        @ on (str_includes (movingAverages_maTrend ta) ''bearish'')
           (''Price is trading below key moving averages (''
            @ (if \<not> movingAverages_aboveSma20 ta then ''below SMA20'' else []) @ '' ''
            @ (if \<not> movingAverages_aboveSma50 ta then ''below SMA50'' else []) @ '' ''
            @ (if \<not> movingAverages_aboveSma200 ta then ''below SMA200'' else []) @ '')'')
        @ on (str_includes (momentum_overallMomentum ta) ''bearish'')
           (''Momentum indicators are showing '' @ momentum_overallMomentum ta @ '' signals'')
        @ on (oscillators_consensus ta = ''bearish'') ''Oscillators are in bearish territory''
        @ on (patterns_doubleTop_detected ta)
           ''Double top pattern detected, indicating potential reversal''
        @ on (patterns_headAndShoulders_detected ta)
           ''Head and shoulders pattern detected, indicating potential reversal''
        @ on (marketStructure_structure ta = ''downtrend'')
           ''Market structure shows lower highs and lower lows, confirming downtrend''
      else [])"

definition sentimentReasons :: "sentiment \<Rightarrow> string \<Rightarrow> string list" where
  "sentimentReasons sa direction =
     on (str_includes (overallSentiment_classification sa) (side direction))
        (''Overall market sentiment is '' @ overallSentiment_classification sa)
     @ on (str_includes (social_sentiment sa) (side direction))
        (''Social media sentiment is '' @ social_sentiment sa @ '' with ''
         @ social_volume sa @ '' volume'')
     @ on (str_includes (news_sentiment sa) (side direction))
        (''News sentiment is '' @ news_sentiment sa)
     @ (if direction = ''long'' \<and> fearGreedIndex_classification sa = ''extreme fear''
        then [''Market is in extreme fear, potential contrarian buy signal'']
        else if direction = ''short'' \<and> fearGreedIndex_classification sa = ''extreme greed''
        then [''Market is in extreme greed, potential contrarian sell signal'']
        else [])"

definition riskWarning :: "technical \<Rightarrow> string \<Rightarrow> string list" where
  "riskWarning ta direction =
     (if direction = ''long'' then
        [''Key risk: Stop loss placed at ''
         @ (if truthy (supportResistance_nearestSupport ta)
            then ''support level'' else ''5% below entry'')]
      else
        [''Key risk: Stop loss placed at ''
         @ (if truthy (supportResistance_nearestResistance ta)
            then ''resistance level'' else ''5% above entry'')])"

definition generateReasoning ::
  "(real \<Rightarrow> string) \<Rightarrow> technical \<Rightarrow> sentiment \<Rightarrow> volume \<Rightarrow> string
     \<Rightarrow> js_error + string list" where
  "generateReasoning toFixed ta sa va direction =
     (let reasons = technicalReasons ta direction @ sentimentReasons sa direction
          @ on (volumeTrends_classification va
                  = (if direction = ''long'' then ''increasing'' else ''decreasing''))
               (''Volume is '' @ volumeTrends_classification va @ '', supporting the ''
                @ direction @ '' position'');
          wall =
            (if direction = ''long''
                \<and> volumeAtPrice_volumeWallClassification va = ''strong support''
             then [''Strong volume support detected below current price'']
             else if direction = ''short''
                \<and> volumeAtPrice_volumeWallClassification va = ''strong resistance''
             then [''Strong volume resistance detected above current price'']
             else [])
      in if buySellRatio_pressureClassification va
              = (if direction = ''long'' then ''buying'' else ''selling'')
         then (case buySellRatio_ratio va of
                 None \<Rightarrow>
                   Inl (TypeError ''Cannot read properties of undefined (reading toFixed)'')
               | Some ratio \<Rightarrow>
                   Inr (reasons
                        @ [(if direction = ''long'' then ''Buying'' else ''Selling'')
                           @ '' pressure is dominant with a '' @ toFixed ratio
                           @ '' buy/sell ratio'']
                        @ wall @ riskWarning ta direction))
         else Inr (reasons @ wall @ riskWarning ta direction))"

section \<open>The recommendation\<close>

text \<open>
  \<open>generateTradeRecommendation\<close> returns one of two objects: the neutral one, with
  fields \<open>symbol\<close>, \<open>recommendation\<close>, \<open>confidence\<close>, \<open>reason\<close> and \<open>timestamp\<close>, or the
  plan. The plan's three summary fields, copies of input fields, are not carried.
  \<open>now\<close> is what \<open>Date.now()\<close> returns.
\<close>

record neutralResult =
  nr_symbol :: string
  nr_recommendation :: string
  nr_confidence :: string
  nr_reason :: string
  nr_timestamp :: int

record tradePlan =
  plan_symbol :: string
  plan_recommendation :: string
  plan_confidence :: string
  plan_entries :: "entry list"
  plan_takeProfitTargets :: "takeProfit list"
  plan_stopLoss :: "stopLoss option"
  plan_leverage :: leverage
  plan_reasoning :: "string list"
  plan_analysisTimestamp :: int

datatype recommendation = Neutral neutralResult | Plan tradePlan

text \<open>Reading a property of the returned object: \<^const>\<open>None\<close> when it has no such property.\<close>

fun get_entries :: "recommendation \<Rightarrow> entry list option" where
  "get_entries (Neutral r) = None"
| "get_entries (Plan p) = Some (plan_entries p)"

fun get_takeProfitTargets :: "recommendation \<Rightarrow> takeProfit list option" where
  "get_takeProfitTargets (Neutral r) = None"
| "get_takeProfitTargets (Plan p) = Some (plan_takeProfitTargets p)"

fun get_stopLoss :: "recommendation \<Rightarrow> stopLoss option" where
  "get_stopLoss (Neutral r) = None"
| "get_stopLoss (Plan p) = plan_stopLoss p"

fun get_leverage :: "recommendation \<Rightarrow> leverage option" where
  "get_leverage (Neutral r) = None"
| "get_leverage (Plan p) = Some (plan_leverage p)"

text \<open>
  The body of the \<open>try\<close> block. An argument that is \<open>undefined\<close> (\<^const>\<open>None\<close>) raises at
  its first property read, in the order \<open>determineTradeDirection\<close> reads them.
\<close>

definition undefinedRead :: "string \<Rightarrow> js_error" where
  "undefinedRead prop =
     TypeError (''Cannot read properties of undefined (reading '' @ prop @ '')'')"

definition tryBlock ::
  "(real \<Rightarrow> string) \<Rightarrow> int \<Rightarrow> string \<Rightarrow> technical option \<Rightarrow> sentiment option
     \<Rightarrow> volume option \<Rightarrow> js_error + recommendation" where
  "tryBlock toFixed now symbol technicalAnalysis sentimentAnalysis volumeAnalysis =
     (case technicalAnalysis of
        None \<Rightarrow> Inl (undefinedRead ''trendStrength'')
      | Some ta \<Rightarrow>
     (case sentimentAnalysis of
        None \<Rightarrow> Inl (undefinedRead ''overallSentiment'')
      | Some sa \<Rightarrow>
     (case volumeAnalysis of
        None \<Rightarrow> Inl (undefinedRead ''volumeTrends'')
      | Some va \<Rightarrow>
     (let direction = determineTradeDirection ta sa va in
      if direction = ''neutral'' then
        Inr (Neutral \<lparr> nr_symbol = symbol, nr_recommendation = ''neutral'',
               nr_confidence = ''low'',
               nr_reason = ''Conflicting signals or lack of clear direction in the market'',
               nr_timestamp = now \<rparr>)
      else
        (let confidence = calculateConfidence ta sa va direction;
             entries = determineEntryPoints ta direction;
             takeProfitTargets = determineTakeProfitTargets ta direction;
             stopLoss = determineStopLoss ta direction entries;
             leverage = calculateLeverage confidence (volatility_level ta)
         in case generateReasoning toFixed ta sa va direction of
              Inl e \<Rightarrow> Inl e
            | Inr reasoning \<Rightarrow>
                Inr (Plan \<lparr> plan_symbol = symbol, plan_recommendation = direction,
                       plan_confidence = confidence, plan_entries = entries,
                       plan_takeProfitTargets = takeProfitTargets,
                       plan_stopLoss = stopLoss, plan_leverage = leverage,
                       plan_reasoning = reasoning,
                       plan_analysisTimestamp = now \<rparr>))))))"

text \<open>
  The function itself: the \<open>catch\<close> clause turns every exception of the block into the
  neutral fallback. Its result is typed like that of any function that may raise, so that
  not raising is a statement about it. The log line before the \<open>try\<close> formats the
  symbol, a string, and raises nothing.
\<close>

definition generateTradeRecommendation ::
  "(real \<Rightarrow> string) \<Rightarrow> int \<Rightarrow> string \<Rightarrow> technical option \<Rightarrow> sentiment option
     \<Rightarrow> volume option \<Rightarrow> js_error + recommendation" where
  "generateTradeRecommendation toFixed now symbol technicalAnalysis sentimentAnalysis
       volumeAnalysis =
     (case tryBlock toFixed now symbol technicalAnalysis sentimentAnalysis volumeAnalysis of
        Inr r \<Rightarrow> Inr r
      | Inl error \<Rightarrow>
          Inr (Neutral \<lparr> nr_symbol = symbol, nr_recommendation = ''neutral'',
                 nr_confidence = ''low'',
                 nr_reason = ''Error generating recommendation: '' @ message error,
                 nr_timestamp = now \<rparr>))"

section \<open>Indicator library\<close>











section \<open>Level clustering\<close>

text \<open>An extremum found by \<open>findLocalExtrema\<close>: its price and its position in the series.\<close>

record level =
  level_value :: real
  level_index :: nat







section \<open>Engulfing patterns\<close>

record candle =
  openTime :: int
  candle_open :: real
  candle_high :: real
  candle_low :: real
  candle_close :: real
  candle_volume :: real

definition bullishEngulfing :: "candle \<Rightarrow> candle \<Rightarrow> bool" where
  "bullishEngulfing current previous =
     (candle_close current > candle_open current
      \<and> candle_close previous < candle_open previous
      \<and> candle_open current < candle_close previous
      \<and> candle_close current > candle_open previous)"

definition bearishEngulfing :: "candle \<Rightarrow> candle \<Rightarrow> bool" where
  "bearishEngulfing current previous =
     (candle_close current < candle_open current
      \<and> candle_close previous > candle_open previous
      \<and> candle_open current > candle_close previous
      \<and> candle_close current < candle_open previous)"

text \<open>
  \<open>detectEngulfingPatterns(klines)\<close>: the loop runs \<open>i\<close> from 1 while
  \<open>i < Math.min(5, klines.length)\<close>, over the flags \<open>(bullish, bearish)\<close>.
\<close>

definition engulfingStep :: "candle list \<Rightarrow> nat \<Rightarrow> bool \<times> bool \<Rightarrow> bool \<times> bool" where
  "engulfingStep klines i flags =
     (let current = klines ! (length klines - i);
          previous = klines ! (length klines - i - 1)
      in (if bullishEngulfing current previous then True else fst flags,
          if bearishEngulfing current previous then True else snd flags))"

definition detectEngulfingPatterns :: "candle list \<Rightarrow> bool \<times> bool" where
  "detectEngulfingPatterns klines =
     fold (engulfingStep klines) [1..<min 5 (length klines)] (False, False)"

section \<open>Example inputs\<close>

text \<open>
  A market without signals, and one where five minor signals are bullish and the volume
  trend is bearish.
\<close>

definition ta_flat :: technical where
  "ta_flat =
     \<lparr> trendStrength_direction = ''neutral'', trendStrength_strength = ''weak'',
       movingAverages_maTrend = ''neutral'', movingAverages_aboveSma20 = True,
       movingAverages_aboveSma50 = False, movingAverages_aboveSma200 = True,
       momentum_overallMomentum = ''neutral'', oscillators_consensus = ''neutral'',
       patterns_patternSignal = ''neutral'', patterns_doubleTop_detected = False,
       patterns_doubleBottom_detected = False, patterns_headAndShoulders_detected = False,
       patterns_inverseHeadAndShoulders_detected = False,
       marketStructure_structure = ''ranging'', supportResistance_currentPrice = 100,
       supportResistance_nearestSupport = None, supportResistance_nearestResistance = None,
       supportResistance_levels_support = [], supportResistance_levels_resistance = [],
       volatility_level = ''medium'' \<rparr>"

definition sa_flat :: sentiment where
  "sa_flat =
     \<lparr> overallSentiment_classification = ''neutral'', social_sentiment = ''neutral'',
       social_volume = ''medium'', news_sentiment = ''neutral'',
       fearGreedIndex_classification = ''neutral'' \<rparr>"

definition va_flat :: volume where
  "va_flat =
     \<lparr> volumeTrends_classification = ''stable'',
       buySellRatio_pressureClassification = ''neutral'', buySellRatio_ratio = Some 1,
       volumeAtPrice_volumeWallClassification = ''balanced'' \<rparr>"

definition ta_minor :: technical where
  "ta_minor =
     ta_flat \<lparr> oscillators_consensus := ''bullish'', patterns_patternSignal := ''bullish'',
       marketStructure_structure := ''uptrend'' \<rparr>"

definition sa_minor :: sentiment where
  "sa_minor = sa_flat \<lparr> social_sentiment := ''bullish'', news_sentiment := ''bullish'' \<rparr>"

definition va_minor :: volume where
  "va_minor = va_flat \<lparr> volumeTrends_classification := ''decreasing'' \<rparr>"

definition va_buying_no_ratio :: volume where
  "va_buying_no_ratio =
     va_flat \<lparr> volumeTrends_classification := ''increasing'',
       buySellRatio_pressureClassification := ''buying'', buySellRatio_ratio := None \<rparr>"

definition ta_levels :: technical where
  "ta_levels =
     ta_flat \<lparr> supportResistance_nearestSupport := Some 95,
       supportResistance_levels_support := [95, 90] \<rparr>"

text \<open>
  Six candles: the first two form a bullish engulfing, the last four do not move.
\<close>

definition bar :: "real \<Rightarrow> real \<Rightarrow> candle" where
  "bar opening closing =
     \<lparr> openTime = 0, candle_open = opening, candle_high = max opening closing,
       candle_low = min opening closing, candle_close = closing, candle_volume = 1 \<rparr>"

definition early_engulfing :: "candle list" where
  "early_engulfing = [bar 10 9, bar 8 11, bar 11 11, bar 11 11, bar 11 11, bar 11 11]"

definition late_engulfing :: "candle list" where
  "late_engulfing = [bar 11 11, bar 11 11, bar 10 9, bar 8 11, bar 11 11, bar 11 11]"



section \<open>Properties of the leverage\<close>

lemma finalLeverage_cases:
  "Math_round (baseLeverage c * volatilityMultiplier l) \<in> {1, 2, 3, 5, 8}"
  by (simp add: Math_round_def baseLeverage_def volatilityMultiplier_def)

text \<open>
  C10. For every confidence label and every volatility level the recommended leverage is
  an integer from 1 to 8, it is 1 for low confidence under high volatility, and the risk
  level attached is one of low, moderate and high.
\<close>

theorem calculateLeverage_range:
  "1 \<le> recommended (calculateLeverage c l)
   \<and> recommended (calculateLeverage c l) \<le> 8
   \<and> recommended (calculateLeverage ''low'' ''high'') = 1
   \<and> riskLevel (calculateLeverage c l) \<in> {''low'', ''moderate'', ''high''}"
proof -
  have r: "recommended (calculateLeverage c l)
             = Math_round (baseLeverage c * volatilityMultiplier l)"
    by (simp add: calculateLeverage_def Let_def)
  have "Math_round (baseLeverage c * volatilityMultiplier l) \<in> {1, 2, 3, 5, 8}"
    by (rule finalLeverage_cases)
  then have bounds: "1 \<le> recommended (calculateLeverage c l)
                     \<and> recommended (calculateLeverage c l) \<le> 8"
    unfolding r by auto
  have low_high: "recommended (calculateLeverage ''low'' ''high'') = 1"
    by (simp add: calculateLeverage_def Let_def Math_round_def baseLeverage_def
        volatilityMultiplier_def)
  have risk: "riskLevel (calculateLeverage c l) \<in> {''low'', ''moderate'', ''high''}"
    by (simp add: calculateLeverage_def Let_def)
  from bounds low_high risk show ?thesis by simp
qed

section \<open>Properties of the aggregator\<close>

lemmas count_defs = totalBullish_def totalBearish_def
  technicalBullishCount_def sentimentBullishCount_def volumeBullishCount_def
  technicalBearishCount_def sentimentBearishCount_def volumeBearishCount_def b2i_def

lemmas example_defs = ta_minor_def sa_minor_def va_minor_def ta_flat_def sa_flat_def
  va_flat_def

lemma flat_votes:
  "totalBullish ta_flat sa_flat va_flat = 0" "totalBearish ta_flat sa_flat va_flat = 0"
  by (simp_all add: count_defs example_defs)

lemma minor_votes:
  "totalBullish ta_minor sa_minor va_minor = 5" "totalBearish ta_minor sa_minor va_minor = 1"
  by (simp_all add: count_defs example_defs)

text \<open>
  C1. The direction is long exactly when the bullish votes exceed the bearish ones by at
  least 3, short exactly when the bearish votes exceed the bullish ones by at least 3, and
  neutral otherwise; in the neutral case the recommendation is the neutral object, which
  has no entries, take-profit targets, stop loss or leverage, whatever the later stages
  would have done.
\<close>

theorem direction_by_vote_margin:
  "(determineTradeDirection ta sa va = ''long''
      \<longleftrightarrow> totalBullish ta sa va - totalBearish ta sa va \<ge> 3)
   \<and> (determineTradeDirection ta sa va = ''short''
      \<longleftrightarrow> totalBearish ta sa va - totalBullish ta sa va \<ge> 3)
   \<and> (determineTradeDirection ta sa va = ''neutral''
      \<longleftrightarrow> \<not> totalBullish ta sa va - totalBearish ta sa va \<ge> 3
          \<and> \<not> totalBearish ta sa va - totalBullish ta sa va \<ge> 3)
   \<and> (determineTradeDirection ta sa va = ''neutral'' \<longrightarrow>
        (\<exists>r. generateTradeRecommendation toFixed now symbol (Some ta) (Some sa) (Some va)
               = Inr (Neutral r)
             \<and> nr_symbol r = symbol
             \<and> nr_recommendation r = ''neutral''
             \<and> nr_confidence r = ''low''
             \<and> nr_reason r = ''Conflicting signals or lack of clear direction in the market''
             \<and> nr_timestamp r = now
             \<and> get_entries (Neutral r) = None
             \<and> get_takeProfitTargets (Neutral r) = None
             \<and> get_stopLoss (Neutral r) = None
             \<and> get_leverage (Neutral r) = None))"
proof -
  have l: "determineTradeDirection ta sa va = ''long''
      \<longleftrightarrow> totalBullish ta sa va - totalBearish ta sa va \<ge> 3"
    by (auto simp: determineTradeDirection_def)
  have s: "determineTradeDirection ta sa va = ''short''
      \<longleftrightarrow> totalBearish ta sa va - totalBullish ta sa va \<ge> 3"
    by (auto simp: determineTradeDirection_def)
  have n: "determineTradeDirection ta sa va = ''neutral''
      \<longleftrightarrow> \<not> totalBullish ta sa va - totalBearish ta sa va \<ge> 3
          \<and> \<not> totalBearish ta sa va - totalBullish ta sa va \<ge> 3"
    by (auto simp: determineTradeDirection_def)
  have g: "determineTradeDirection ta sa va = ''neutral'' \<longrightarrow>
        (\<exists>r. generateTradeRecommendation toFixed now symbol (Some ta) (Some sa) (Some va)
               = Inr (Neutral r)
             \<and> nr_symbol r = symbol
             \<and> nr_recommendation r = ''neutral''
             \<and> nr_confidence r = ''low''
             \<and> nr_reason r = ''Conflicting signals or lack of clear direction in the market''
             \<and> nr_timestamp r = now
             \<and> get_entries (Neutral r) = None
             \<and> get_takeProfitTargets (Neutral r) = None
             \<and> get_stopLoss (Neutral r) = None
             \<and> get_leverage (Neutral r) = None)"
    by (simp add: generateTradeRecommendation_def tryBlock_def)
  from l s n g show ?thesis by blast
qed

theorem direction_by_vote_margin_witness:
  "determineTradeDirection ta_flat sa_flat va_flat = ''neutral''
   \<and> (\<exists>r. generateTradeRecommendation (\<lambda>x. ''1.00'') 0 ''BTCUSDT''
              (Some ta_flat) (Some sa_flat) (Some va_flat) = Inr (Neutral r)
          \<and> nr_recommendation r = ''neutral''
          \<and> get_entries (Neutral r) = None
          \<and> get_leverage (Neutral r) = None)
   \<and> determineTradeDirection ta_minor sa_minor va_minor = ''long''"
proof -
  have d: "determineTradeDirection ta_flat sa_flat va_flat = ''neutral''"
    by (simp add: determineTradeDirection_def flat_votes)
  have m: "totalBullish ta_minor sa_minor va_minor
             - totalBearish ta_minor sa_minor va_minor \<ge> 3"
    by (simp add: minor_votes)
  from d m direction_by_vote_margin
             [of ta_flat sa_flat va_flat "\<lambda>x. ''1.00''" 0 "''BTCUSDT''"]
           direction_by_vote_margin [of ta_minor sa_minor va_minor]
  show ?thesis by blast
qed




text \<open>
  C2, as the claim states it, fails: without support levels the entries of a long plan
  are the market entry alone, with an allocation of 0.4.
\<close>

theorem entries_without_levels:
  "\<not> \<bar>sum_list (map entry_allocation (determineEntryPoints ta_flat ''long'')) - 1\<bar>
       \<le> 1 / 10 ^ 6"
  by (simp add: determineEntryPoints_def ta_flat_def truthy_def marketEntry_def)

text \<open>
  C2, amended. The allocations of the entries sum to 1 (within 1e-6) exactly when both
  limit entries exist: the nearest support (long) or resistance (short) is present and at
  least two such levels are listed. The allocations of the take-profit targets sum to 1
  (within 1e-6) whenever the number of resistance (long) or support (short) levels is
  not 1.
\<close>

theorem allocation_sums:
  "(\<bar>sum_list (map entry_allocation (determineEntryPoints ta ''long'')) - 1\<bar> \<le> 1 / 10 ^ 6
      \<longleftrightarrow> truthy (supportResistance_nearestSupport ta)
          \<and> length (supportResistance_levels_support ta) \<ge> 2)
   \<and> (\<bar>sum_list (map entry_allocation (determineEntryPoints ta ''short'')) - 1\<bar>
        \<le> 1 / 10 ^ 6
      \<longleftrightarrow> truthy (supportResistance_nearestResistance ta)
          \<and> length (supportResistance_levels_resistance ta) \<ge> 2)
   \<and> (length (supportResistance_levels_resistance ta) \<noteq> 1 \<longrightarrow>
        \<bar>sum_list (map tp_allocation (determineTakeProfitTargets ta ''long'')) - 1\<bar>
          \<le> 1 / 10 ^ 6)
   \<and> (length (supportResistance_levels_support ta) \<noteq> 1 \<longrightarrow>
        \<bar>sum_list (map tp_allocation (determineTakeProfitTargets ta ''short'')) - 1\<bar>
          \<le> 1 / 10 ^ 6)"
proof -
  have el: "\<bar>sum_list (map entry_allocation (determineEntryPoints ta ''long'')) - 1\<bar>
              \<le> 1 / 10 ^ 6
      \<longleftrightarrow> truthy (supportResistance_nearestSupport ta)
          \<and> length (supportResistance_levels_support ta) \<ge> 2"
    by (simp add: determineEntryPoints_def Let_def marketEntry_def limitEntry_def)
  have es: "\<bar>sum_list (map entry_allocation (determineEntryPoints ta ''short'')) - 1\<bar>
              \<le> 1 / 10 ^ 6
      \<longleftrightarrow> truthy (supportResistance_nearestResistance ta)
          \<and> length (supportResistance_levels_resistance ta) \<ge> 2"
    by (simp add: determineEntryPoints_def Let_def marketEntry_def limitEntry_def)
  have tl: "length (supportResistance_levels_resistance ta) \<noteq> 1 \<longrightarrow>
        \<bar>sum_list (map tp_allocation (determineTakeProfitTargets ta ''long'')) - 1\<bar>
          \<le> 1 / 10 ^ 6"
    by (cases "supportResistance_levels_resistance ta")
       (auto simp: determineTakeProfitTargets_def Let_def target_def)
  have ts: "length (supportResistance_levels_support ta) \<noteq> 1 \<longrightarrow>
        \<bar>sum_list (map tp_allocation (determineTakeProfitTargets ta ''short'')) - 1\<bar>
          \<le> 1 / 10 ^ 6"
    by (cases "supportResistance_levels_support ta")
       (auto simp: determineTakeProfitTargets_def Let_def target_def)
  from el es tl ts show ?thesis by blast
qed

theorem allocation_sums_witness:
  "\<bar>sum_list (map entry_allocation (determineEntryPoints ta_levels ''long'')) - 1\<bar>
     \<le> 1 / 10 ^ 6
   \<and> \<bar>sum_list (map tp_allocation (determineTakeProfitTargets ta_flat ''long'')) - 1\<bar>
     \<le> 1 / 10 ^ 6
   \<and> \<bar>sum_list (map tp_allocation (determineTakeProfitTargets ta_flat ''short'')) - 1\<bar>
     \<le> 1 / 10 ^ 6"
  using allocation_sums [of ta_levels] allocation_sums [of ta_flat]
  by (simp add: ta_levels_def ta_flat_def truthy_def)

text \<open>
  C3. Whatever the \<open>try\<close> block raises, the function returns the neutral fallback, whose
  reason carries the message of the exception; whatever the block returns, the function
  returns; so the function returns on every input and raises on none.
\<close>

theorem exceptions_become_neutral_fallback:
  "(\<forall>e. tryBlock toFixed now symbol ta sa va = Inl e \<longrightarrow>
        generateTradeRecommendation toFixed now symbol ta sa va
          = Inr (Neutral \<lparr> nr_symbol = symbol, nr_recommendation = ''neutral'',
                   nr_confidence = ''low'',
                   nr_reason = ''Error generating recommendation: '' @ message e,
                   nr_timestamp = now \<rparr>))
   \<and> (\<forall>r. tryBlock toFixed now symbol ta sa va = Inr r \<longrightarrow>
          generateTradeRecommendation toFixed now symbol ta sa va = Inr r)
   \<and> (\<exists>r. generateTradeRecommendation toFixed now symbol ta sa va = Inr r)"
  by (cases "tryBlock toFixed now symbol ta sa va")
     (simp_all add: generateTradeRecommendation_def)

lemma tryBlock_undefined_argument:
  "tryBlock (\<lambda>x. ''1.00'') 0 ''BTCUSDT'' None (Some sa_flat) (Some va_flat)
     = Inl (TypeError ''Cannot read properties of undefined (reading trendStrength)'')"
  by (simp add: tryBlock_def undefinedRead_def)

lemma direction_no_ratio:
  "determineTradeDirection ta_minor sa_minor va_buying_no_ratio = ''long''"
  by (simp add: determineTradeDirection_def count_defs example_defs va_buying_no_ratio_def)

lemma tryBlock_missing_ratio:
  "tryBlock (\<lambda>x. ''1.00'') 0 ''BTCUSDT'' (Some ta_minor) (Some sa_minor)
       (Some va_buying_no_ratio)
     = Inl (TypeError ''Cannot read properties of undefined (reading toFixed)'')"
proof -
  have "generateReasoning (\<lambda>x. ''1.00'') ta_minor sa_minor va_buying_no_ratio ''long''
          = Inl (TypeError ''Cannot read properties of undefined (reading toFixed)'')"
    by (simp add: generateReasoning_def Let_def va_buying_no_ratio_def va_flat_def)
  then show ?thesis
    by (simp add: tryBlock_def direction_no_ratio)
qed

theorem exceptions_become_neutral_fallback_witness:
  "generateTradeRecommendation (\<lambda>x. ''1.00'') 0 ''BTCUSDT'' None (Some sa_flat)
       (Some va_flat)
     = Inr (Neutral \<lparr> nr_symbol = ''BTCUSDT'', nr_recommendation = ''neutral'',
              nr_confidence = ''low'',
              nr_reason = ''Error generating recommendation: ''
                @ ''Cannot read properties of undefined (reading trendStrength)'',
              nr_timestamp = 0 \<rparr>)
   \<and> generateTradeRecommendation (\<lambda>x. ''1.00'') 0 ''BTCUSDT'' (Some ta_minor)
        (Some sa_minor) (Some va_buying_no_ratio)
     = Inr (Neutral \<lparr> nr_symbol = ''BTCUSDT'', nr_recommendation = ''neutral'',
              nr_confidence = ''low'',
              nr_reason = ''Error generating recommendation: ''
                @ ''Cannot read properties of undefined (reading toFixed)'',
              nr_timestamp = 0 \<rparr>)"
  using exceptions_become_neutral_fallback
          [of "\<lambda>x. ''1.00''" 0 "''BTCUSDT''" None "Some sa_flat" "Some va_flat"]
        exceptions_become_neutral_fallback
          [of "\<lambda>x. ''1.00''" 0 "''BTCUSDT''" "Some ta_minor" "Some sa_minor"
              "Some va_buying_no_ratio"]
  by (simp add: tryBlock_undefined_argument tryBlock_missing_ratio)

section \<open>Properties of the indicator library\<close>






































section \<open>Properties of the pattern detector\<close>

lemma fold_engulfingStep:
  "fold (engulfingStep klines) is flags =
     (fst flags \<or> (\<exists>i\<in>set is. bullishEngulfing (klines ! (length klines - i))
                                   (klines ! (length klines - i - 1))),
      snd flags \<or> (\<exists>i\<in>set is. bearishEngulfing (klines ! (length klines - i))
                                   (klines ! (length klines - i - 1))))"
proof (induction "is" arbitrary: flags)
  case Nil
  then show ?case by simp
next
  case (Cons i "is")
  show ?case
    by (simp add: Cons.IH) (auto simp: engulfingStep_def Let_def)
qed

text \<open>
  C9, amended. A bullish engulfing is reported exactly when one of the last four candle
  pairs, those formed by the last five candles, has the current candle bullish, the
  previous one bearish and the current body strictly containing the previous body; and
  symmetrically for a bearish engulfing.
\<close>

theorem engulfing_last_four_pairs:
  "(fst (detectEngulfingPatterns klines) \<longleftrightarrow>
      (\<exists>i. 1 \<le> i \<and> i < 5 \<and> i < length klines
           \<and> bullishEngulfing (klines ! (length klines - i))
                (klines ! (length klines - i - 1))))
   \<and> (snd (detectEngulfingPatterns klines) \<longleftrightarrow>
      (\<exists>i. 1 \<le> i \<and> i < 5 \<and> i < length klines
           \<and> bearishEngulfing (klines ! (length klines - i))
                (klines ! (length klines - i - 1))))"
  by (auto simp: detectEngulfingPatterns_def fold_engulfingStep)

theorem engulfing_last_four_pairs_witness:
  "fst (detectEngulfingPatterns late_engulfing)
   \<and> \<not> snd (detectEngulfingPatterns late_engulfing)"
proof -
  have l: "length late_engulfing = 6" by (simp add: late_engulfing_def)
  have "bullishEngulfing (late_engulfing ! (length late_engulfing - 3))
          (late_engulfing ! (length late_engulfing - 3 - 1))"
    by (simp add: late_engulfing_def bullishEngulfing_def bar_def)
  then have "\<exists>i. 1 \<le> i \<and> i < 5 \<and> i < length late_engulfing
           \<and> bullishEngulfing (late_engulfing ! (length late_engulfing - i))
                (late_engulfing ! (length late_engulfing - i - 1))"
    using l by (intro exI [of _ 3]) simp
  with engulfing_last_four_pairs [of late_engulfing]
  have a: "fst (detectEngulfingPatterns late_engulfing)" by blast
  have "\<not> bearishEngulfing (late_engulfing ! (length late_engulfing - i))
                (late_engulfing ! (length late_engulfing - i - 1))"
    if "1 \<le> i" "i < 5" for i
  proof -
    from that have "i = 1 \<or> i = 2 \<or> i = 3 \<or> i = 4" by auto
    then show ?thesis
      by (auto simp: late_engulfing_def bearishEngulfing_def bar_def)
  qed
  with engulfing_last_four_pairs [of late_engulfing]
  have b: "\<not> snd (detectEngulfingPatterns late_engulfing)" by blast
  from a b show ?thesis by simp
qed

text \<open>
  C9, as the claim states it, fails: of six candles whose first two form a bullish
  engulfing, that pair is the fifth from the end, and no bullish engulfing is reported.
\<close>

theorem engulfing_fifth_pair_missed:
  "length early_engulfing = 6
   \<and> bullishEngulfing (early_engulfing ! (6 - 5)) (early_engulfing ! (6 - 5 - 1))
   \<and> \<not> fst (detectEngulfingPatterns early_engulfing)"
proof -
  have a: "bullishEngulfing (early_engulfing ! (6 - 5)) (early_engulfing ! (6 - 5 - 1))"
    by (simp add: early_engulfing_def bullishEngulfing_def bar_def)
  have b: "\<not> fst (detectEngulfingPatterns early_engulfing)"
    by (simp add: detectEngulfingPatterns_def early_engulfing_def upt_rec [of _ 5]
         upt_rec [of _ 6] engulfingStep_def Let_def bullishEngulfing_def bar_def)
  from a b show ?thesis by (simp add: early_engulfing_def)
qed

section \<open>Properties of the level clustering\<close>














end
